theory Spec2Isabelle
  imports Main "HOL-Library.AList" "HOL-Library.Sublist" "HOL-Library.Multiset"
begin

section \<open>Terminal session orchestrator\<close>

text \<open>
  A shallow embedding of the terminal service of req-auto-mgmt:
  \<^verbatim>\<open>services/terminal-service/src/services/ptyManager.ts\<close> (and its twin for the
  Electron main process), \<^verbatim>\<open>sessionManager.ts\<close>, \<^verbatim>\<open>notificationService.ts\<close>
  and the session list handler of \<^verbatim>\<open>routes/index.ts\<close>.

  JavaScript strings are \<open>string\<close>, numbers that hold timestamps, exit codes and
  terminal sizes are \<open>int\<close>, an optional field is an \<open>option\<close>. What the
  environment decides (the result of \<^verbatim>\<open>uuidv4()\<close>, of \<^verbatim>\<open>Date.now()\<close>, whether a call
  on the node-pty handle throws) is an argument of the operation that asks for it.
\<close>

subsection \<open>Types (types/index.ts)\<close>

datatype aiTool = Claude | Codex

datatype status = Running | Completed | Failed

text \<open>
  The fields of \<^verbatim>\<open>CreateSessionRequest\<close> carry the prefix \<open>req_\<close>, since the session
  record has fields of the same names. \<^verbatim>\<open>command\<close> is optional in the Electron copy of
  the manager, and the HTTP route only checks \<^verbatim>\<open>cwd\<close> and \<^verbatim>\<open>aiTool\<close>.
\<close>

record CreateSessionRequest =
  req_requirementId :: "string option"
  req_projectPath :: "string option"
  req_aiTool :: aiTool
  req_command :: "string option"
  req_cwd :: string
  req_initialInput :: "string option"

text \<open>The field \<^verbatim>\<open>id\<close> of a session is \<open>sid\<close> here (\<open>id\<close> is the identity of HOL).\<close>

record TerminalSession =
  sid :: string
  requirementId :: "string option"
  projectPath :: "string option"
  aiTool :: aiTool
  status :: status
  command :: "string option"
  cwd :: string
  createdAt :: int
  completedAt :: "int option"
  exitCode :: "int option"

subsection \<open>The process handle and the registry (ptyManager.ts)\<close>

text \<open>
  The node-pty handle \<^verbatim>\<open>pty.IPty\<close> is outside the repository. It is modelled by the
  sequence of calls the manager has made on it, in order.
\<close>

datatype ptyCall = PtyWrite string | PtyResize int int | PtyKill

record PtyInstance =
  pty :: "ptyCall list"
  session :: TerminalSession
  outputBuffer :: "string list"

text \<open>The events the manager emits: \<^verbatim>\<open>emit('output', id, data)\<close>, \<^verbatim>\<open>emit('exit', id, code)\<close>.\<close>

datatype emitted = Output string string | Exit string int

text \<open>
  The callbacks of a process handle close over the instance object, not over the
  registry: they keep mutating it after \<^verbatim>\<open>removeSession\<close>. So the instance objects
  live in a store, \<open>heap\<close>, addressed by the order of their creation, and the registry
  \<^verbatim>\<open>Map<string, PtyInstance>\<close> is an association list from session id to address, in
  insertion order. \<open>timers\<close> are the pending \<^verbatim>\<open>setTimeout\<close> closures with the
  request each has captured, \<open>uuids\<close> the results of the calls of \<^verbatim>\<open>uuidv4()\<close> so far.
\<close>

record PtyManager =
  heap :: "PtyInstance list"
  instances :: "(string \<times> nat) list"
  timers :: "(nat \<times> CreateSessionRequest) list"
  uuids :: "string list"
  events :: "emitted list"

definition newPtyManager :: PtyManager where
  "newPtyManager = \<lparr>heap = [], instances = [], timers = [], uuids = [], events = []\<rparr>"

definition MAX_PARALLEL_SESSIONS :: nat where
  "MAX_PARALLEL_SESSIONS = 5"

definition getActiveSessionCount :: "PtyManager \<Rightarrow> nat" where
  "getActiveSessionCount m =
     length (filter (\<lambda>(k, a). status (session (heap m ! a)) = Running) (instances m))"

definition canCreateSession :: "PtyManager \<Rightarrow> bool" where
  "canCreateSession m = (getActiveSessionCount m < MAX_PARALLEL_SESSIONS)"

text \<open>
  The body of the \<^verbatim>\<open>setTimeout\<close> callback of \<^verbatim>\<open>createSession\<close>: the text it writes to
  the terminal, or \<open>None\<close> when it writes nothing. A JavaScript string is truthy when it
  is not empty; \<^verbatim>\<open>replace(/'/g, "'\\''")\<close> replaces every single quote by the four
  characters quote, backslash, quote, quote.
\<close>

definition escapeSingleQuotes :: "string \<Rightarrow> string" where
  "escapeSingleQuotes s =
     concat (map (\<lambda>c. if c = CHR 0x27 then [CHR 0x27, CHR 0x5C, CHR 0x27, CHR 0x27] else [c]) s)"

definition truthy :: "string option \<Rightarrow> bool" where
  "truthy v = (case v of None \<Rightarrow> False | Some s \<Rightarrow> s \<noteq> [])"

definition commandInjection :: "CreateSessionRequest \<Rightarrow> string option" where
  "commandInjection request =
     (if truthy (req_command request) then
        (let fullCommand =
           (if truthy (req_initialInput request)
            then the (req_command request) @ [CHR 0x20, CHR 0x27]
                 @ escapeSingleQuotes (the (req_initialInput request)) @ [CHR 0x27]
            else the (req_command request))
         in Some (fullCommand @ [CHR 0x0D]))
      else None)"

text \<open>
  \<^verbatim>\<open>createSession\<close>. \<open>sessionId\<close> is what \<^verbatim>\<open>uuidv4()\<close> returns, \<open>now\<close> what
  \<^verbatim>\<open>Date.now()\<close> returns, \<open>spawnOk\<close> whether \<^verbatim>\<open>pty.spawn\<close> returns a handle (it throws
  otherwise, and the \<^verbatim>\<open>catch\<close> returns \<^verbatim>\<open>null\<close>).
\<close>

definition createSession ::
  "PtyManager \<Rightarrow> CreateSessionRequest \<Rightarrow> string \<Rightarrow> int \<Rightarrow> bool \<Rightarrow> PtyManager \<times> TerminalSession option" where
  "createSession m request sessionId now spawnOk =
     (if \<not> canCreateSession m then (m, None)
      else
        (let m1 = m\<lparr>uuids := uuids m @ [sessionId]\<rparr>;
             s = \<lparr>sid = sessionId,
                  requirementId = req_requirementId request,
                  projectPath = req_projectPath request,
                  aiTool = req_aiTool request,
                  status = Running,
                  command = req_command request,
                  cwd = req_cwd request,
                  createdAt = now,
                  completedAt = None,
                  exitCode = None\<rparr>
         in if \<not> spawnOk then (m1, None)
            else
              (let a = length (heap m);
                   inst = \<lparr>pty = [], session = s, outputBuffer = []\<rparr>
               in (m1\<lparr>heap := heap m @ [inst],
                       instances := AList.update sessionId a (instances m),
                       timers := timers m @ [(a, request)]\<rparr>,
                   Some s))))"

text \<open>The \<^verbatim>\<open>onData\<close> callback of the handle at address \<open>a\<close>.\<close>

definition pushOutput :: "string list \<Rightarrow> string \<Rightarrow> string list" where
  "pushOutput buf data =
     (let buf1 = buf @ [data] in if length buf1 > 10000 then tl buf1 else buf1)"

definition onData :: "PtyManager \<Rightarrow> nat \<Rightarrow> string \<Rightarrow> PtyManager" where
  "onData m a data =
     (if a < length (heap m) then
        (let inst = heap m ! a
         in m\<lparr>heap := (heap m)[a := inst\<lparr>outputBuffer := pushOutput (outputBuffer inst) data\<rparr>],
              events := events m @ [Output (sid (session inst)) data]\<rparr>)
      else m)"

text \<open>The \<^verbatim>\<open>onExit\<close> callback of the handle at address \<open>a\<close>.\<close>

definition onExit :: "PtyManager \<Rightarrow> nat \<Rightarrow> int \<Rightarrow> int \<Rightarrow> PtyManager" where
  "onExit m a code now =
     (if a < length (heap m) then
        (let inst = heap m ! a;
             s = (session inst)\<lparr>status := (if code = 0 then Completed else Failed),
                                completedAt := Some now,
                                exitCode := Some code\<rparr>
         in m\<lparr>heap := (heap m)[a := inst\<lparr>session := s\<rparr>],
              events := events m @ [Exit (sid (session inst)) code]\<rparr>)
      else m)"

text \<open>The timer of the creation at address \<open>a\<close> fires, once.\<close>

definition onTimeout :: "PtyManager \<Rightarrow> nat \<Rightarrow> PtyManager" where
  "onTimeout m a =
     (case map_of (timers m) a of
        None \<Rightarrow> m
      | Some request \<Rightarrow>
          (let m1 = m\<lparr>timers := filter (\<lambda>(b, r). b \<noteq> a) (timers m)\<rparr>
           in case commandInjection request of
                None \<Rightarrow> m1
              | Some text \<Rightarrow>
                  m1\<lparr>heap := (heap m)[a := (heap m ! a)\<lparr>pty := pty (heap m ! a) @ [PtyWrite text]\<rparr>]\<rparr>))"

definition getSession :: "PtyManager \<Rightarrow> string \<Rightarrow> TerminalSession option" where
  "getSession m sessionId =
     (case map_of (instances m) sessionId of
        None \<Rightarrow> None
      | Some a \<Rightarrow> Some (session (heap m ! a)))"


definition getSessionOutput :: "PtyManager \<Rightarrow> string \<Rightarrow> string" where
  "getSessionOutput m sessionId =
     (case map_of (instances m) sessionId of
        None \<Rightarrow> []
      | Some a \<Rightarrow> (let joined = concat (outputBuffer (heap m ! a))
                  in if joined = [] then [] else joined))"

text \<open>
  \<^verbatim>\<open>writeToSession\<close>, \<^verbatim>\<open>resizeSession\<close>, \<^verbatim>\<open>killSession\<close>: \<open>ok\<close> says that the call on
  the handle returns; when it throws, the \<^verbatim>\<open>catch\<close> returns \<^verbatim>\<open>false\<close>.
\<close>

definition callPty :: "PtyManager \<Rightarrow> nat \<Rightarrow> ptyCall \<Rightarrow> PtyManager" where
  "callPty m a c = m\<lparr>heap := (heap m)[a := (heap m ! a)\<lparr>pty := pty (heap m ! a) @ [c]\<rparr>]\<rparr>"

definition writeToSession :: "PtyManager \<Rightarrow> string \<Rightarrow> string \<Rightarrow> bool \<Rightarrow> PtyManager \<times> bool" where
  "writeToSession m sessionId data ok =
     (case map_of (instances m) sessionId of
        None \<Rightarrow> (m, False)
      | Some a \<Rightarrow>
          if status (session (heap m ! a)) \<noteq> Running then (m, False)
          else (callPty m a (PtyWrite data), ok))"

definition resizeSession :: "PtyManager \<Rightarrow> string \<Rightarrow> int \<Rightarrow> int \<Rightarrow> bool \<Rightarrow> PtyManager \<times> bool" where
  "resizeSession m sessionId cols rows ok =
     (case map_of (instances m) sessionId of
        None \<Rightarrow> (m, False)
      | Some a \<Rightarrow>
          if status (session (heap m ! a)) \<noteq> Running then (m, False)
          else (callPty m a (PtyResize cols rows), ok))"

definition killSession :: "PtyManager \<Rightarrow> string \<Rightarrow> int \<Rightarrow> bool \<Rightarrow> PtyManager \<times> bool" where
  "killSession m sessionId now ok =
     (case map_of (instances m) sessionId of
        None \<Rightarrow> (m, False)
      | Some a \<Rightarrow>
          if status (session (heap m ! a)) = Running then
            (let m1 = callPty m a PtyKill
             in if ok then
                  (m1\<lparr>heap := (heap m1)[a := (heap m1 ! a)\<lparr>session :=
                         (session (heap m1 ! a))\<lparr>status := Failed, completedAt := Some now\<rparr>\<rparr>]\<rparr>,
                   True)
                else (m1, False))
          else (m, True))"

definition removeSession :: "PtyManager \<Rightarrow> string \<Rightarrow> int \<Rightarrow> bool \<Rightarrow> PtyManager \<times> bool" where
  "removeSession m sessionId now ok =
     (case map_of (instances m) sessionId of
        None \<Rightarrow> (m, False)
      | Some a \<Rightarrow>
          (let m1 = (if status (session (heap m ! a)) = Running
                     then fst (killSession m sessionId now ok) else m)
           in (m1\<lparr>instances := AList.delete sessionId (instances m1)\<rparr>, True)))"

definition cleanupCompletedSessions :: "PtyManager \<Rightarrow> PtyManager \<times> nat" where
  "cleanupCompletedSessions m =
     (m\<lparr>instances := filter (\<lambda>(k, a). status (session (heap m ! a)) = Running) (instances m)\<rparr>,
      length (filter (\<lambda>(k, a). status (session (heap m ! a)) \<noteq> Running) (instances m)))"

text \<open>\<^verbatim>\<open>shutdown\<close>: \<open>now\<close> and \<open>ok\<close> give the clock and the handle's answer for each kill.\<close>

definition shutdown :: "PtyManager \<Rightarrow> (string \<Rightarrow> int) \<Rightarrow> (string \<Rightarrow> bool) \<Rightarrow> PtyManager" where
  "shutdown m now ok =
     (foldl (\<lambda>m1 k. fst (killSession m1 k (now k) (ok k))) m (map fst (instances m)))
       \<lparr>instances := []\<rparr>"

subsection \<open>Runs of the manager\<close>

text \<open>
  Node runs the calls of the API and the callbacks of the handles one after another on
  one thread. A run is a list of such steps.
\<close>

datatype event =
    CreateSession CreateSessionRequest string int bool
  | Data nat string
  | ProcessExit nat int int
  | Timeout nat
  | WriteToSession string string bool
  | ResizeSession string int int bool
  | KillSession string int bool
  | RemoveSession string int bool
  | CleanupCompletedSessions
  | Shutdown "string \<Rightarrow> int" "string \<Rightarrow> bool"

fun step :: "PtyManager \<Rightarrow> event \<Rightarrow> PtyManager" where
  "step m (CreateSession request sessionId now spawnOk) =
     fst (createSession m request sessionId now spawnOk)"
| "step m (Data a data) = onData m a data"
| "step m (ProcessExit a code now) = onExit m a code now"
| "step m (Timeout a) = onTimeout m a"
| "step m (WriteToSession sessionId data ok) = fst (writeToSession m sessionId data ok)"
| "step m (ResizeSession sessionId cols rows ok) = fst (resizeSession m sessionId cols rows ok)"
| "step m (KillSession sessionId now ok) = fst (killSession m sessionId now ok)"
| "step m (RemoveSession sessionId now ok) = fst (removeSession m sessionId now ok)"
| "step m CleanupCompletedSessions = fst (cleanupCompletedSessions m)"
| "step m (Shutdown now ok) = shutdown m now ok"

definition run :: "PtyManager \<Rightarrow> event list \<Rightarrow> PtyManager" where
  "run m es = foldl step m es"

subsection \<open>Persistence (sessionManager.ts)\<close>

text \<open>
  The log directory is the list of its files, name and content, in the order
  \<^verbatim>\<open>readdirSync\<close> lists them; \<^verbatim>\<open>ensureLogDir\<close> makes sure that it exists.
  \<^verbatim>\<open>JSON.stringify\<close> and \<^verbatim>\<open>JSON.parse\<close> are outside the repository: a file that holds the
  JSON text of a session is \<open>JsonSession\<close>, a file whose content \<^verbatim>\<open>JSON.parse\<close> rejects
  or that cannot be read is \<open>Raw\<close> (\<^verbatim>\<open>loadSessionMeta\<close> catches the error and returns
  \<^verbatim>\<open>null\<close>). A \<open>logDirectory\<close> is a directory that can be listed. Whether the operating
  system lets a file be removed or written is an argument of the operation that asks
  for it, as for the calls on the process handle: \<^verbatim>\<open>unlinkSync\<close> returns \<open>None\<close> when
  it throws.
\<close>

datatype fileContent = JsonSession TerminalSession | Raw string

type_synonym logDirectory = "(string \<times> fileContent) list"




definition writeFileSync :: "logDirectory \<Rightarrow> string \<Rightarrow> fileContent \<Rightarrow> logDirectory" where
  "writeFileSync fs p c = AList.update p c fs"




definition getSessionMetaPath :: "string \<Rightarrow> string" where
  "getSessionMetaPath sessionId = ''session_'' @ sessionId @ ''.json''"

text \<open>\<open>writeOk\<close>: the write returns; when it throws, the \<^verbatim>\<open>catch\<close> logs and goes on.\<close>

definition saveSessionMeta :: "logDirectory \<Rightarrow> bool \<Rightarrow> TerminalSession \<Rightarrow> logDirectory" where
  "saveSessionMeta fs writeOk s =
     (if writeOk then writeFileSync fs (getSessionMetaPath (sid s)) (JsonSession s) else fs)"








subsection \<open>The session list and the cleanup route (routes/index.ts)\<close>




subsection \<open>Notifications (notificationService.ts)\<close>

record NotificationConfig =
  enabled :: bool
  webhookUrl :: string

text \<open>
  The markdown text of a notification has characters outside ASCII; the message is kept
  as the values the template prints. \<^verbatim>\<open>Math.round\<close> rounds halves up, and the duration
  is 0 when \<^verbatim>\<open>completedAt\<close> is absent or 0.
\<close>

record NotificationMessage =
  msgSuccess :: bool
  msgTool :: aiTool
  msgDuration :: int
  msgProject :: "string option"
  msgRequirement :: "string option"
  msgExitCode :: "int option"

definition taskCompletedMessage :: "TerminalSession \<Rightarrow> NotificationMessage" where
  "taskCompletedMessage s =
     \<lparr>msgSuccess = (status s = Completed),
      msgTool = aiTool s,
      msgDuration = (case completedAt s of
                       None \<Rightarrow> 0
                     | Some c \<Rightarrow> if c = 0 then 0 else (c - createdAt s + 500) div 1000),
      msgProject = projectPath s,
      msgRequirement = (if truthy (requirementId s) then requirementId s else None),
      msgExitCode = exitCode s\<rparr>"

text \<open>
  What Node reports for one request: the \<^verbatim>\<open>end\<close> of a response (status code and body),
  an \<^verbatim>\<open>error\<close> event or a \<^verbatim>\<open>timeout\<close> event of the request, or that the response was
  cut off after its headers (the response stream is aborted and closed; it never emits
  \<^verbatim>\<open>end\<close>). The code listens to the first three and has no listener for the last.
  \<open>urlOk\<close> says that \<^verbatim>\<open>new URL\<close> and \<^verbatim>\<open>https.request\<close> do not throw;
  \<open>errcodeIsZero\<close> stands for \<^verbatim>\<open>JSON.parse(responseBody).errcode === 0\<close>, \<open>None\<close> when that
  throws. The promise is settled by the first event whose listener calls \<^verbatim>\<open>resolve\<close>;
  until then it is pending.
\<close>

datatype httpEvent = ResponseEnd int string | RequestError | RequestTimeout | ResponseAborted

datatype promise = Pending | Resolved bool | Rejected

record httpEnv =
  urlOk :: bool
  errcodeIsZero :: "string \<Rightarrow> bool option"
  httpEvents :: "httpEvent list"

record httpRequest =
  reqUrl :: string
  reqBody :: NotificationMessage

text \<open>What the listeners pass to \<^verbatim>\<open>resolve\<close>; \<open>None\<close> where no listener is registered.\<close>

definition onHttpEvent :: "httpEnv \<Rightarrow> httpEvent \<Rightarrow> bool option" where
  "onHttpEvent env ev =
     (case ev of
        ResponseEnd statusCode responseBody \<Rightarrow>
          if statusCode = 200 then
            (case errcodeIsZero env responseBody of Some b \<Rightarrow> Some b | None \<Rightarrow> Some False)
          else Some False
      | RequestError \<Rightarrow> Some False
      | RequestTimeout \<Rightarrow> Some False
      | ResponseAborted \<Rightarrow> None)"

fun settle :: "httpEnv \<Rightarrow> httpEvent list \<Rightarrow> promise" where
  "settle env [] = Pending"
| "settle env (ev # evs) =
     (case onHttpEvent env ev of Some b \<Rightarrow> Resolved b | None \<Rightarrow> settle env evs)"

definition sendWeChatMessage ::
  "NotificationConfig \<Rightarrow> httpEnv \<Rightarrow> NotificationMessage \<Rightarrow> httpRequest list \<times> promise" where
  "sendWeChatMessage config env message =
     (if \<not> enabled config \<or> webhookUrl config = [] then ([], Resolved False)
      else if \<not> urlOk env then ([], Resolved False)
      else
        ([\<lparr>reqUrl = webhookUrl config, reqBody = message\<rparr>], settle env (httpEvents env)))"

definition notifyTaskCompleted ::
  "NotificationConfig \<Rightarrow> httpEnv \<Rightarrow> TerminalSession \<Rightarrow> httpRequest list \<times> promise" where
  "notifyTaskCompleted config env s = sendWeChatMessage config env (taskCompletedMessage s)"

subsection \<open>Notions used in the proofs\<close>

definition runningAt :: "PtyInstance list \<Rightarrow> nat \<Rightarrow> bool" where
  "runningAt H b = (status (session (H ! b)) = Running)"

definition countRunning :: "PtyInstance list \<Rightarrow> (string \<times> nat) list \<Rightarrow> nat" where
  "countRunning H xs = length (filter (\<lambda>(k, a). runningAt H a) xs)"

definition quiet :: "PtyManager \<Rightarrow> PtyManager \<Rightarrow> bool" where
  "quiet m m' =
     (length (heap m') = length (heap m)
      \<and> (\<forall>b. runningAt (heap m') b \<longrightarrow> runningAt (heap m) b)
      \<and> (\<forall>b. sid (session (heap m' ! b)) = sid (session (heap m ! b)))
      \<and> subseq (instances m') (instances m)
      \<and> subseq (timers m') (timers m)
      \<and> uuids m' = uuids m)"

definition registryOk :: "PtyManager \<Rightarrow> bool" where
  "registryOk m =
     ((\<forall>(k, a) \<in> set (instances m). a < length (heap m) \<and> sid (session (heap m ! a)) = k)
      \<and> distinct (map fst (instances m))
      \<and> (\<forall>(b, r) \<in> set (timers m). b < length (heap m))
      \<and> distinct (map fst (timers m))
      \<and> countRunning (heap m) (instances m) \<le> MAX_PARALLEL_SESSIONS)"

definition freshSession :: "CreateSessionRequest \<Rightarrow> string \<Rightarrow> int \<Rightarrow> TerminalSession" where
  "freshSession request u now =
     \<lparr>sid = u, requirementId = req_requirementId request, projectPath = req_projectPath request,
      aiTool = req_aiTool request, status = Running, command = req_command request,
      cwd = req_cwd request, createdAt = now, completedAt = None, exitCode = None\<rparr>"

definition exampleRequest :: CreateSessionRequest where
  "exampleRequest =
     \<lparr>req_requirementId = None, req_projectPath = Some ''/tmp/proj'', req_aiTool = Claude,
      req_command = Some ''claude'', req_cwd = ''/tmp/proj'',
      req_initialInput = Some ''it's broken''\<rparr>"

definition fiveCreates :: "event list" where
  "fiveCreates =
     [CreateSession exampleRequest ''s1'' 1 True, CreateSession exampleRequest ''s2'' 2 True,
      CreateSession exampleRequest ''s3'' 3 True, CreateSession exampleRequest ''s4'' 4 True,
      CreateSession exampleRequest ''s5'' 5 True]"

definition instClosed :: "(PtyInstance \<Rightarrow> bool) \<Rightarrow> bool" where
  "instClosed P =
     (\<forall>i. P i \<longrightarrow>
        (\<forall>c. P (i\<lparr>pty := pty i @ [c]\<rparr>))
        \<and> (\<forall>d. P (i\<lparr>outputBuffer := pushOutput (outputBuffer i) d\<rparr>))
        \<and> (\<forall>code now. P (i\<lparr>session := (session i)\<lparr>status := (if code = 0 then Completed else Failed),
                                  completedAt := Some now, exitCode := Some code\<rparr>\<rparr>))
        \<and> (\<forall>now. status (session i) = Running \<longrightarrow>
               P (i\<lparr>session := (session i)\<lparr>status := Failed, completedAt := Some now\<rparr>\<rparr>)))"

definition instFresh :: "(PtyInstance \<Rightarrow> bool) \<Rightarrow> bool" where
  "instFresh P = (\<forall>request u now. P \<lparr>pty = [], session = freshSession request u now, outputBuffer = []\<rparr>)"

definition sessionOk :: "TerminalSession \<Rightarrow> bool" where
  "sessionOk s =
     ((status s = Running \<longrightarrow> completedAt s = None \<and> exitCode s = None)
      \<and> (status s \<noteq> Running \<longrightarrow> completedAt s \<noteq> None))"

definition killedOnce :: "event list" where
  "killedOnce = [CreateSession exampleRequest ''s1'' 1000 True, KillSession ''s1'' 2000 True]"

definition emptyInputRequest :: CreateSessionRequest where
  "emptyInputRequest = exampleRequest\<lparr>req_initialInput := Some []\<rparr>"

definition noCommandRequest :: CreateSessionRequest where
  "noCommandRequest = exampleRequest\<lparr>req_command := None\<rparr>"

fun dataOf :: "nat \<Rightarrow> event \<Rightarrow> string list" where
  "dataOf a (Data b d) = (if b = a then [d] else [])"
| "dataOf a _ = []"

definition emittedChunks :: "nat \<Rightarrow> event list \<Rightarrow> string list" where
  "emittedChunks a es = concat (map (dataOf a) es)"

definition oneSession :: "event list" where
  "oneSession = [CreateSession exampleRequest ''s1'' 1000 True]"

definition twoChunks :: "event list" where
  "twoChunks = [Data 0 ''ab'', WriteToSession ''s1'' ''x'' True, Data 0 ''cd'']"




definition oldSession :: TerminalSession where
  "oldSession = (freshSession exampleRequest ''a1'' 1000)\<lparr>status := Completed, completedAt := Some 2000, exitCode := Some 0\<rparr>"







section \<open>Properties\<close>

subsection \<open>The registry in every run\<close>

lemma getActiveSessionCount_alt: "getActiveSessionCount m = countRunning (heap m) (instances m)"
  by (simp add: getActiveSessionCount_def countRunning_def runningAt_def)

lemma countRunning_mono:
  "\<forall>(k, a) \<in> set xs. runningAt H' a \<longrightarrow> runningAt H a \<Longrightarrow>
   countRunning H' xs \<le> countRunning H xs"
  by (induction xs) (auto simp: countRunning_def)

lemma countRunning_filter: "countRunning H (filter Q xs) \<le> countRunning H xs"
  by (induction xs) (auto simp: countRunning_def)

lemma countRunning_delete: "countRunning H (AList.delete k xs) \<le> countRunning H xs"
  by (simp add: AList.delete_eq countRunning_filter)

lemma countRunning_update: "countRunning H (AList.update k v xs) \<le> Suc (countRunning H xs)"
  by (induction xs) (auto simp: countRunning_def)

lemma runningAt_list_update:
  "(status (session x) = Running \<Longrightarrow> runningAt H a) \<Longrightarrow> runningAt (H[a := x]) b \<Longrightarrow> runningAt H b"
  by (cases "b = a"; cases "a < length H") (auto simp: runningAt_def list_update_beyond)

lemma runningAt_append: "b < length H \<Longrightarrow> runningAt (H @ ys) b = runningAt H b"
  by (simp add: runningAt_def nth_append)

lemma sid_list_update:
  "sid (session x) = sid (session (H ! a)) \<Longrightarrow> sid (session (H[a := x] ! b)) = sid (session (H ! b))"
  by (cases "b = a"; cases "a < length H") (auto simp: list_update_beyond)

lemma quiet_refl: "quiet m m"
  by (simp add: quiet_def)

lemma quiet_trans: "quiet m m' \<Longrightarrow> quiet m' m'' \<Longrightarrow> quiet m m''"
  unfolding quiet_def by (auto intro: subseq_order.order_trans)

lemma quiet_heap_update:
  assumes "status (session x) = Running \<Longrightarrow> runningAt (heap m) a"
      and "sid (session x) = sid (session (heap m ! a))"
  shows "quiet m (m\<lparr>heap := (heap m)[a := x]\<rparr>)"
  using assms by (auto simp: quiet_def sid_list_update dest: runningAt_list_update)

lemma quiet_events: "quiet m m' \<Longrightarrow> quiet m (m'\<lparr>events := ev\<rparr>)"
  by (simp add: quiet_def)

lemma quiet_instances: "quiet m m' \<Longrightarrow> subseq xs (instances m') \<Longrightarrow> quiet m (m'\<lparr>instances := xs\<rparr>)"
  unfolding quiet_def by (auto intro: subseq_order.order_trans)

lemma quiet_timers: "quiet m m' \<Longrightarrow> subseq xs (timers m') \<Longrightarrow> quiet m (m'\<lparr>timers := xs\<rparr>)"
  unfolding quiet_def by (auto intro: subseq_order.order_trans)

lemma quiet_callPty: "quiet m (callPty m a c)"
  unfolding callPty_def by (rule quiet_heap_update) (simp_all add: runningAt_def)

lemma quiet_onData: "quiet m (onData m a d)"
proof (cases "a < length (heap m)")
  case True
  have "quiet m (m\<lparr>heap := (heap m)[a := (heap m ! a)\<lparr>outputBuffer := pushOutput (outputBuffer (heap m ! a)) d\<rparr>]\<rparr>)"
    by (rule quiet_heap_update) (simp_all add: runningAt_def)
  then show ?thesis using True by (simp add: onData_def Let_def quiet_def)
next
  case False
  then show ?thesis by (simp add: onData_def quiet_refl)
qed

lemma quiet_onExit: "quiet m (onExit m a code now)"
proof (cases "a < length (heap m)")
  case True
  have "quiet m (m\<lparr>heap := (heap m)[a := (heap m ! a)\<lparr>session := (session (heap m ! a))
          \<lparr>status := (if code = 0 then Completed else Failed), completedAt := Some now, exitCode := Some code\<rparr>\<rparr>]\<rparr>)"
    by (rule quiet_heap_update) (simp_all add: runningAt_def split: if_splits)
  then show ?thesis using True by (simp add: onExit_def Let_def quiet_def)
next
  case False
  then show ?thesis by (simp add: onExit_def quiet_refl)
qed

lemma quiet_onTimeout: "quiet m (onTimeout m a)"
proof (cases "map_of (timers m) a")
  case None
  then show ?thesis by (simp add: onTimeout_def quiet_refl)
next
  case (Some request)
  have 1: "quiet m (m\<lparr>timers := filter (\<lambda>(b, r). b \<noteq> a) (timers m)\<rparr>)"
    by (rule quiet_timers [OF quiet_refl]) simp
  show ?thesis
  proof (cases "commandInjection request")
    case None
    with Some 1 show ?thesis by (simp add: onTimeout_def)
  next
    case (Some line)
    have "quiet m (callPty m a (PtyWrite line))" by (rule quiet_callPty)
    then have "quiet m ((callPty m a (PtyWrite line))\<lparr>timers := filter (\<lambda>(b, r). b \<noteq> a) (timers m)\<rparr>)"
      by (rule quiet_timers) (simp add: callPty_def)
    moreover have "onTimeout m a = (callPty m a (PtyWrite line))\<lparr>timers := filter (\<lambda>(b, r). b \<noteq> a) (timers m)\<rparr>"
      using Some \<open>map_of (timers m) a = Some request\<close> by (simp add: onTimeout_def callPty_def)
    ultimately show ?thesis by simp
  qed
qed

lemma quiet_writeToSession: "quiet m (fst (writeToSession m k d ok))"
  by (auto simp: writeToSession_def quiet_refl quiet_callPty split: option.splits)

lemma quiet_resizeSession: "quiet m (fst (resizeSession m k c r ok))"
  by (auto simp: resizeSession_def quiet_refl quiet_callPty split: option.splits)

lemma quiet_killUpdate:
  "quiet m (m\<lparr>heap := (heap m)[a := (heap m ! a)\<lparr>session := (session (heap m ! a))\<lparr>status := Failed, completedAt := Some now\<rparr>\<rparr>]\<rparr>)"
  by (rule quiet_heap_update) (simp_all add: runningAt_def)

lemma quiet_killSession: "quiet m (fst (killSession m k now ok))"
proof -
  have "quiet m m1 \<Longrightarrow> quiet m (m1\<lparr>heap := (heap m1)[a := (heap m1 ! a)\<lparr>session := (session (heap m1 ! a))\<lparr>status := Failed, completedAt := Some now\<rparr>\<rparr>]\<rparr>)"
    for m1 a
    by (erule quiet_trans) (rule quiet_killUpdate)
  then show ?thesis
    by (auto simp: killSession_def Let_def quiet_refl quiet_callPty split: option.splits)
qed

lemma quiet_removeSession: "quiet m (fst (removeSession m k now ok))"
proof (cases "map_of (instances m) k")
  case None
  then show ?thesis by (simp add: removeSession_def quiet_refl)
next
  case (Some a)
  define m1 where "m1 = (if status (session (heap m ! a)) = Running then fst (killSession m k now ok) else m)"
  have "quiet m m1" by (simp add: m1_def quiet_killSession quiet_refl)
  then have "quiet m (m1\<lparr>instances := AList.delete k (instances m1)\<rparr>)"
    by (rule quiet_instances) (simp add: AList.delete_eq)
  then show ?thesis using Some by (simp add: removeSession_def m1_def Let_def)
qed

lemma quiet_cleanupCompletedSessions: "quiet m (fst (cleanupCompletedSessions m))"
  unfolding cleanupCompletedSessions_def fst_conv
  by (rule quiet_instances [OF quiet_refl]) simp

lemma quiet_killAll: "quiet m (foldl (\<lambda>m1 k. fst (killSession m1 k (now k) (ok k))) m ks)"
proof (induction ks rule: rev_induct)
  case Nil
  then show ?case by (simp add: quiet_refl)
next
  case (snoc k ks)
  then show ?case by (auto intro: quiet_trans quiet_killSession)
qed

lemma quiet_shutdown: "quiet m (shutdown m now ok)"
  unfolding shutdown_def by (rule quiet_instances [OF quiet_killAll]) simp

lemma countRunning_subseq: "subseq xs ys \<Longrightarrow> countRunning H xs \<le> countRunning H ys"
  unfolding countRunning_def by (rule list_emb_length) (rule subseq_filter)

lemma subseq_distinct: "subseq xs ys \<Longrightarrow> distinct ys \<Longrightarrow> distinct xs"
  by (rule subseqs_distinctD [of xs ys]) simp_all

lemma subseq_distinct_fst: "subseq xs ys \<Longrightarrow> distinct (map fst ys) \<Longrightarrow> distinct (map fst xs)"
  by (rule subseq_distinct [of "map fst xs" "map fst ys"]) (simp_all add: subseq_map)

lemma registryOk_quiet:
  assumes "registryOk m" and "quiet m m'"
  shows "registryOk m'"
proof -
  have sub: "set (instances m') \<subseteq> set (instances m)" "set (timers m') \<subseteq> set (timers m)"
    using assms(2) by (auto simp: quiet_def dest: list_emb_set)
  have len: "length (heap m') = length (heap m)" using assms(2) by (simp add: quiet_def)
  have sidEq: "\<And>b. sid (session (heap m' ! b)) = sid (session (heap m ! b))"
    using assms(2) by (simp add: quiet_def)
  have 1: "\<forall>(k, a) \<in> set (instances m'). a < length (heap m') \<and> sid (session (heap m' ! a)) = k"
    using assms(1) sub(1) by (auto simp: registryOk_def len sidEq)
  have 2: "distinct (map fst (instances m'))"
    using assms by (auto simp: registryOk_def quiet_def intro: subseq_distinct_fst)
  have 3: "\<forall>(b, r) \<in> set (timers m'). b < length (heap m')"
    using assms(1) sub(2) by (auto simp: registryOk_def len)
  have 4: "distinct (map fst (timers m'))"
    using assms by (auto simp: registryOk_def quiet_def intro: subseq_distinct_fst)
  have "countRunning (heap m') (instances m') \<le> countRunning (heap m) (instances m')"
    by (rule countRunning_mono) (use assms(2) in \<open>auto simp: quiet_def\<close>)
  also have "\<dots> \<le> countRunning (heap m) (instances m)"
    by (rule countRunning_subseq) (use assms(2) in \<open>simp add: quiet_def\<close>)
  finally have 5: "countRunning (heap m') (instances m') \<le> MAX_PARALLEL_SESSIONS"
    using assms(1) by (simp add: registryOk_def)
  show ?thesis using 1 2 3 4 5 by (simp add: registryOk_def)
qed

lemma createSession_rejected:
  "\<not> canCreateSession m \<Longrightarrow> createSession m request u now ok = (m, None)"
  by (simp add: createSession_def)

lemma createSession_spawn_fails:
  "canCreateSession m \<Longrightarrow> createSession m request u now False = (m\<lparr>uuids := uuids m @ [u]\<rparr>, None)"
  by (simp add: createSession_def Let_def)

lemma createSession_spawned:
  "canCreateSession m \<Longrightarrow>
   createSession m request u now True =
     (m\<lparr>heap := heap m @ [\<lparr>pty = [], session = freshSession request u now, outputBuffer = []\<rparr>],
        instances := AList.update u (length (heap m)) (instances m),
        timers := timers m @ [(length (heap m), request)],
        uuids := uuids m @ [u]\<rparr>,
      Some (freshSession request u now))"
  by (simp add: createSession_def Let_def freshSession_def)

lemma countRunning_append:
  "\<forall>(k, a) \<in> set xs. a < length H \<Longrightarrow> countRunning (H @ ys) xs = countRunning H xs"
  by (induction xs) (auto simp: countRunning_def runningAt_append)

lemma set_update_subset: "set (AList.update k v xs) \<subseteq> insert (k, v) (set xs)"
  by (induction xs) auto

lemma registryOk_createSession:
  assumes "registryOk m"
  shows "registryOk (fst (createSession m request u now ok))"
proof (cases "canCreateSession m")
  case False
  then show ?thesis using assms by (simp add: createSession_rejected)
next
  case can: True
  show ?thesis
  proof (cases ok)
    case False
    then show ?thesis using assms can by (simp add: createSession_spawn_fails registryOk_def)
  next
    case True
    let ?a = "length (heap m)"
    let ?i = "\<lparr>pty = [], session = freshSession request u now, outputBuffer = []\<rparr>"
    let ?H = "heap m @ [?i]"
    let ?xs = "AList.update u ?a (instances m)"
    have old: "\<forall>(k, a) \<in> set (instances m). a < length (heap m) \<and> sid (session (heap m ! a)) = k"
      using assms by (simp add: registryOk_def)
    have 1: "\<forall>(k, a) \<in> set ?xs. a < length ?H \<and> sid (session (?H ! a)) = k"
    proof (clarify)
      fix k a assume "(k, a) \<in> set ?xs"
      then consider "(k, a) = (u, ?a)" | "(k, a) \<in> set (instances m)"
        using set_update_subset [of u ?a "instances m"] by auto
      then show "a < length ?H \<and> sid (session (?H ! a)) = k"
      proof cases
        case 1
        then show ?thesis by (simp add: freshSession_def)
      next
        case 2
        then show ?thesis using old by (auto simp: nth_append)
      qed
    qed
    have 2: "distinct (map fst ?xs)"
      using assms by (simp add: registryOk_def distinct_update)
    have 3: "\<forall>(b, r) \<in> set (timers m @ [(?a, request)]). b < length ?H"
      using assms by (auto simp: registryOk_def)
    have 4: "distinct (map fst (timers m @ [(?a, request)]))"
      using assms by (auto simp: registryOk_def)
    have "countRunning ?H ?xs \<le> Suc (countRunning ?H (instances m))"
      by (rule countRunning_update)
    also have "countRunning ?H (instances m) = countRunning (heap m) (instances m)"
      by (rule countRunning_append) (use old in auto)
    finally have 5: "countRunning ?H ?xs \<le> MAX_PARALLEL_SESSIONS"
      using can by (simp add: canCreateSession_def getActiveSessionCount_alt)
    show ?thesis
      using 1 2 3 4 5 can True by (simp add: createSession_spawned registryOk_def)
  qed
qed

lemma registryOk_step: "registryOk m \<Longrightarrow> registryOk (step m e)"
  by (cases e)
     (auto intro: registryOk_createSession
           intro: registryOk_quiet [OF _ quiet_onData] registryOk_quiet [OF _ quiet_onExit]
                  registryOk_quiet [OF _ quiet_onTimeout] registryOk_quiet [OF _ quiet_writeToSession]
                  registryOk_quiet [OF _ quiet_resizeSession] registryOk_quiet [OF _ quiet_killSession]
                  registryOk_quiet [OF _ quiet_removeSession]
                  registryOk_quiet [OF _ quiet_cleanupCompletedSessions]
                  registryOk_quiet [OF _ quiet_shutdown])

lemma registryOk_run: "registryOk m \<Longrightarrow> registryOk (run m es)"
  unfolding run_def by (induction es arbitrary: m) (simp_all add: registryOk_step)

lemma registryOk_new: "registryOk newPtyManager"
  by (simp add: registryOk_def newPtyManager_def countRunning_def)

subsection \<open>Admission control\<close>

text \<open>
  Claim C1. In every state a run of the manager reaches, at most 5 resident sessions have
  status running; and when 5 are running, \<^verbatim>\<open>createSession\<close> returns no session and
  leaves the manager as it was: no call of \<^verbatim>\<open>uuidv4()\<close>, no new instance, no new
  entry of the registry.
\<close>

theorem C1_admission_ceiling:
  "getActiveSessionCount (run newPtyManager es) \<le> 5
   \<and> (getActiveSessionCount (run newPtyManager es) = 5 \<longrightarrow>
        createSession (run newPtyManager es) request u now ok = (run newPtyManager es, None))"
proof -
  have "registryOk (run newPtyManager es)"
    by (rule registryOk_run) (rule registryOk_new)
  then have "getActiveSessionCount (run newPtyManager es) \<le> 5"
    by (simp add: registryOk_def getActiveSessionCount_alt MAX_PARALLEL_SESSIONS_def)
  moreover have "getActiveSessionCount (run newPtyManager es) = 5 \<Longrightarrow>
      createSession (run newPtyManager es) request u now ok = (run newPtyManager es, None)"
    by (rule createSession_rejected) (simp add: canCreateSession_def MAX_PARALLEL_SESSIONS_def)
  ultimately show ?thesis by blast
qed

text \<open>Five admitted creations, then a sixth request.\<close>

lemma fiveCreates_count: "getActiveSessionCount (run newPtyManager fiveCreates) = 5"
  by code_simp

theorem C1_admission_ceiling_witness:
  "getActiveSessionCount (run newPtyManager fiveCreates) = 5
   \<and> createSession (run newPtyManager fiveCreates) exampleRequest ''s6'' 6 True
       = (run newPtyManager fiveCreates, None)"
  using C1_admission_ceiling [of fiveCreates exampleRequest "''s6''" 6 True] fiveCreates_count
  by simp

subsection \<open>Properties of every instance in every run\<close>

lemma list_all_update:
  "list_all P H \<Longrightarrow> (a < length H \<Longrightarrow> P (H ! a) \<Longrightarrow> P x) \<Longrightarrow> list_all P (H[a := x])"
  by (cases "a < length H") (auto simp: list_all_length nth_list_update list_update_beyond)

lemma all_callPty: "instClosed P \<Longrightarrow> list_all P (heap m) \<Longrightarrow> list_all P (heap (callPty m a c))"
  unfolding callPty_def by (auto intro!: list_all_update simp: instClosed_def)

lemma all_onData: "instClosed P \<Longrightarrow> list_all P (heap m) \<Longrightarrow> list_all P (heap (onData m a d))"
  unfolding onData_def by (auto intro!: list_all_update simp: instClosed_def Let_def)

lemma instClosed_exit:
  "instClosed P \<Longrightarrow> P i \<Longrightarrow>
   P (i\<lparr>session := (session i)\<lparr>status := (if code = 0 then Completed else Failed),
                                  completedAt := Some now, exitCode := Some code\<rparr>\<rparr>)"
  by (simp add: instClosed_def)

lemma onExit_heap:
  "heap (onExit m a code now) =
     (heap m)[a := (heap m ! a)\<lparr>session := (session (heap m ! a))
        \<lparr>status := (if code = 0 then Completed else Failed),
         completedAt := Some now, exitCode := Some code\<rparr>\<rparr>]"
  by (cases "a < length (heap m)") (simp_all add: onExit_def Let_def list_update_beyond)

lemma all_onExit: "instClosed P \<Longrightarrow> list_all P (heap m) \<Longrightarrow> list_all P (heap (onExit m a code now))"
  unfolding onExit_heap by (rule list_all_update) (simp_all only: instClosed_exit)

lemma onTimeout_heap:
  "heap (onTimeout m a) =
     (case map_of (timers m) a of
        None \<Rightarrow> heap m
      | Some request \<Rightarrow>
          (case commandInjection request of
             None \<Rightarrow> heap m
           | Some line \<Rightarrow> heap (callPty m a (PtyWrite line))))"
  by (simp add: onTimeout_def callPty_def Let_def split: option.splits)

lemma all_onTimeout: "instClosed P \<Longrightarrow> list_all P (heap m) \<Longrightarrow> list_all P (heap (onTimeout m a))"
  by (simp add: onTimeout_heap all_callPty split: option.splits)

lemma all_writeToSession:
  "instClosed P \<Longrightarrow> list_all P (heap m) \<Longrightarrow> list_all P (heap (fst (writeToSession m k d ok)))"
  by (simp add: writeToSession_def all_callPty split: option.splits)

lemma all_resizeSession:
  "instClosed P \<Longrightarrow> list_all P (heap m) \<Longrightarrow> list_all P (heap (fst (resizeSession m k c r ok)))"
  by (simp add: resizeSession_def all_callPty split: option.splits)

lemma callPty_session: "session (heap (callPty m a c) ! b) = session (heap m ! b)"
  by (cases "b = a"; cases "a < length (heap m)") (auto simp: callPty_def list_update_beyond)

lemma callPty_length: "length (heap (callPty m a c)) = length (heap m)"
  by (simp add: callPty_def)

lemma all_killUpdate:
  assumes "instClosed P" "list_all P (heap m1)" "status (session (heap m1 ! a)) = Running"
  shows "list_all P ((heap m1)[a := (heap m1 ! a)\<lparr>session :=
            (session (heap m1 ! a))\<lparr>status := Failed, completedAt := Some now\<rparr>\<rparr>])"
  using assms by (auto intro!: list_all_update simp: instClosed_def)

lemma all_killSession:
  assumes "instClosed P" "list_all P (heap m)"
  shows "list_all P (heap (fst (killSession m k now ok)))"
proof (cases "map_of (instances m) k")
  case None
  then show ?thesis using assms by (simp add: killSession_def)
next
  case (Some a)
  show ?thesis
  proof (cases "status (session (heap m ! a)) = Running")
    case False
    then show ?thesis using assms Some by (simp add: killSession_def)
  next
    case True
    have 1: "list_all P (heap (callPty m a PtyKill))" using assms by (rule all_callPty)
    have 2: "status (session (heap (callPty m a PtyKill) ! a)) = Running"
      using True by (simp add: callPty_session)
    show ?thesis
      using Some True 1 all_killUpdate [OF assms(1) 1 2]
      by (simp add: killSession_def Let_def)
  qed
qed

lemma all_removeSession:
  "instClosed P \<Longrightarrow> list_all P (heap m) \<Longrightarrow> list_all P (heap (fst (removeSession m k now ok)))"
  by (simp add: removeSession_def Let_def all_killSession split: option.splits)

lemma all_killAll:
  "instClosed P \<Longrightarrow> list_all P (heap m) \<Longrightarrow>
   list_all P (heap (foldl (\<lambda>m1 k. fst (killSession m1 k (now k) (ok k))) m ks))"
  by (induction ks arbitrary: m) (simp_all add: all_killSession)

lemma all_createSession:
  "instFresh P \<Longrightarrow> list_all P (heap m) \<Longrightarrow> list_all P (heap (fst (createSession m request u now ok)))"
  by (cases "canCreateSession m"; cases ok)
     (simp_all add: createSession_rejected createSession_spawn_fails createSession_spawned instFresh_def)

lemma all_step:
  assumes "instClosed P" "instFresh P" "list_all P (heap m)"
  shows "list_all P (heap (step m e))"
  using assms
  by (cases e)
     (simp_all add: all_createSession all_onData all_onExit all_onTimeout all_writeToSession
        all_resizeSession all_killSession all_removeSession all_killAll
        cleanupCompletedSessions_def shutdown_def)

lemma all_run:
  "instClosed P \<Longrightarrow> instFresh P \<Longrightarrow> list_all P (heap m) \<Longrightarrow> list_all P (heap (run m es))"
  unfolding run_def by (induction es arbitrary: m) (simp_all add: all_step)

lemma all_reachable:
  "instClosed P \<Longrightarrow> instFresh P \<Longrightarrow> list_all P (heap (run newPtyManager es))"
  by (rule all_run) (simp_all add: newPtyManager_def)

subsection \<open>Completion of a session\<close>

lemma sessionOk_closed: "instClosed (\<lambda>i. sessionOk (session i))"
  by (simp add: instClosed_def sessionOk_def)

lemma sessionOk_fresh: "instFresh (\<lambda>i. sessionOk (session i))"
  by (simp add: instFresh_def sessionOk_def freshSession_def)

lemma sessionOk_reachable:
  "a < length (heap (run newPtyManager es)) \<Longrightarrow> sessionOk (session (heap (run newPtyManager es) ! a))"
  using all_reachable [OF sessionOk_closed sessionOk_fresh, of es]
  by (simp add: list_all_length)

lemma onExit_session:
  "a < length (heap m) \<Longrightarrow>
   session (heap (onExit m a code now) ! a) =
     (session (heap m ! a))\<lparr>status := (if code = 0 then Completed else Failed),
                            completedAt := Some now, exitCode := Some code\<rparr>"
  by (simp add: onExit_heap)

lemma killSession_running:
  "map_of (instances m) k = Some a \<Longrightarrow> a < length (heap m) \<Longrightarrow>
   status (session (heap m ! a)) = Running \<Longrightarrow>
   session (heap (fst (killSession m k now True)) ! a) =
     (session (heap m ! a))\<lparr>status := Failed, completedAt := Some now\<rparr>"
  by (simp add: killSession_def Let_def callPty_def)

lemma killSession_terminal:
  "map_of (instances m) k = Some a \<Longrightarrow> status (session (heap m ! a)) \<noteq> Running \<Longrightarrow>
   killSession m k now ok = (m, True)"
  by (simp add: killSession_def)

text \<open>
  An explicit kill leaves \<^verbatim>\<open>exitCode\<close> undefined: the session is failed, has its
  \<^verbatim>\<open>completedAt\<close>, and no exit code.
\<close>

theorem C3_counterexample:
  "map_option status (getSession (run newPtyManager
      [CreateSession exampleRequest ''s1'' 1000 True, KillSession ''s1'' 2000 True]) ''s1'') = Some Failed
   \<and> map_option completedAt (getSession (run newPtyManager
      [CreateSession exampleRequest ''s1'' 1000 True, KillSession ''s1'' 2000 True]) ''s1'') = Some (Some 2000)
   \<and> map_option exitCode (getSession (run newPtyManager
      [CreateSession exampleRequest ''s1'' 1000 True, KillSession ''s1'' 2000 True]) ''s1'') = Some None"
  by code_simp

text \<open>
  Claim C3, as amended. In every state a run reaches, a session whose status is running
  has neither \<^verbatim>\<open>completedAt\<close> nor \<^verbatim>\<open>exitCode\<close>, and a session whose status is terminal
  has its \<^verbatim>\<open>completedAt\<close>. The exit callback sets status, \<^verbatim>\<open>completedAt\<close> and
  \<^verbatim>\<open>exitCode\<close> together. \<^verbatim>\<open>killSession\<close> on a running session (whose handle accepts the
  kill) sets status failed and \<^verbatim>\<open>completedAt\<close> and leaves \<^verbatim>\<open>exitCode\<close> as it is;
  on a session whose status is terminal it returns true and changes nothing.
\<close>

theorem C3_completion_fields:
  assumes "m = run newPtyManager es" and "a < length (heap m)"
  shows "(status (session (heap m ! a)) = Running \<longrightarrow>
            completedAt (session (heap m ! a)) = None \<and> exitCode (session (heap m ! a)) = None)
       \<and> (status (session (heap m ! a)) \<noteq> Running \<longrightarrow> completedAt (session (heap m ! a)) \<noteq> None)
       \<and> session (heap (onExit m a code now) ! a) =
           (session (heap m ! a))\<lparr>status := (if code = 0 then Completed else Failed),
                                  completedAt := Some now, exitCode := Some code\<rparr>
       \<and> (map_of (instances m) k = Some a \<and> status (session (heap m ! a)) = Running \<longrightarrow>
            session (heap (fst (killSession m k now True)) ! a) =
              (session (heap m ! a))\<lparr>status := Failed, completedAt := Some now\<rparr>)
       \<and> (map_of (instances m) k = Some a \<and> status (session (heap m ! a)) \<noteq> Running \<longrightarrow>
            killSession m k now ok = (m, True))"
proof -
  have "sessionOk (session (heap m ! a))"
    using assms sessionOk_reachable by simp
  then show ?thesis
    using assms(2) by (simp add: sessionOk_def onExit_session killSession_running killSession_terminal)
qed

lemma killedOnce_facts:
  "0 < length (heap (run newPtyManager killedOnce))"
  "map_of (instances (run newPtyManager killedOnce)) ''s1'' = Some 0"
  "status (session (heap (run newPtyManager killedOnce) ! 0)) = Failed"
  by code_simp+

theorem C3_completion_fields_witness:
  "completedAt (session (heap (run newPtyManager killedOnce) ! 0)) \<noteq> None
   \<and> killSession (run newPtyManager killedOnce) ''s1'' 3000 True = (run newPtyManager killedOnce, True)
   \<and> session (heap (onExit (run newPtyManager killedOnce) 0 2 3000) ! 0) =
        (session (heap (run newPtyManager killedOnce) ! 0))
          \<lparr>status := Failed, completedAt := Some 3000, exitCode := Some 2\<rparr>"
  using C3_completion_fields [of "run newPtyManager killedOnce" killedOnce 0 2 3000 "''s1''" True]
    killedOnce_facts
  by simp

text \<open>
  Claim C2 at a run the code can take: a session is created and killed (status failed,
  \<^verbatim>\<open>completedAt\<close> 2000); the killed process then exits and its exit callback, which has
  no guard on the status, reports code 0: the status goes from failed to completed and
  \<^verbatim>\<open>completedAt\<close> is overwritten.
\<close>

theorem C2_kill_then_exit:
  "map_option status (getSession (run newPtyManager
      [CreateSession exampleRequest ''s1'' 1000 True, KillSession ''s1'' 2000 True]) ''s1'') = Some Failed
   \<and> map_option status (getSession (run newPtyManager
      [CreateSession exampleRequest ''s1'' 1000 True, KillSession ''s1'' 2000 True,
       ProcessExit 0 0 3000]) ''s1'') = Some Completed
   \<and> map_option completedAt (getSession (run newPtyManager
      [CreateSession exampleRequest ''s1'' 1000 True, KillSession ''s1'' 2000 True,
       ProcessExit 0 0 3000]) ''s1'') = Some (Some 3000)"
  by code_simp

subsection \<open>The command written after the delay\<close>

lemma timer_after_create:
  assumes "registryOk m" "canCreateSession m"
  shows "map_of (timers (fst (createSession m request u now True))) (length (heap m)) = Some request"
proof -
  have "length (heap m) \<notin> fst ` set (timers m)"
    using assms(1) by (auto simp: registryOk_def)
  then have "map_of (timers m) (length (heap m)) = None"
    by (simp add: map_of_eq_None_iff)
  then show ?thesis
    using assms(2) by (simp add: createSession_spawned map_add_def)
qed

lemma created_instance:
  "canCreateSession m \<Longrightarrow>
   heap (fst (createSession m request u now True)) ! length (heap m) =
     \<lparr>pty = [], session = freshSession request u now, outputBuffer = []\<rparr>"
  by (simp add: createSession_spawned)

lemma created_length:
  "canCreateSession m \<Longrightarrow>
   length (heap (fst (createSession m request u now True))) = Suc (length (heap m))"
  by (simp add: createSession_spawned)

lemma callPty_pty: "a < length (heap m) \<Longrightarrow> pty (heap (callPty m a c) ! a) = pty (heap m ! a) @ [c]"
  by (simp add: callPty_def)

lemma commandInjection_some:
  assumes "req_command request = Some cmd" "cmd \<noteq> []"
      and "req_initialInput request = Some input"
  shows "commandInjection request =
     Some (if input = [] then cmd @ [CHR 0x0D]
           else cmd @ [CHR 0x20, CHR 0x27]
                @ concat (map (\<lambda>c. if c = CHR 0x27 then [CHR 0x27, CHR 0x5C, CHR 0x27, CHR 0x27]
                                     else [c]) input)
                @ [CHR 0x27, CHR 0x0D])"
  using assms by (simp add: commandInjection_def truthy_def escapeSingleQuotes_def)

text \<open>
  With an initial input that is supplied but empty, the callback writes the command and a
  carriage return only: no quoted argument.
\<close>

theorem C4_counterexample:
  "commandInjection
     \<lparr>req_requirementId = None, req_projectPath = Some ''/tmp/proj'', req_aiTool = Claude,
      req_command = Some ''claude'', req_cwd = ''/tmp/proj'', req_initialInput = Some ''''\<rparr>
     = Some (''claude'' @ [CHR 0x0D])
   \<and> ''claude'' @ [CHR 0x0D] \<noteq>
       ''claude'' @ [CHR 0x20, CHR 0x27] @ escapeSingleQuotes '''' @ [CHR 0x27, CHR 0x0D]"
  by (simp add: commandInjection_def truthy_def escapeSingleQuotes_def)

text \<open>
  Claim C4, as amended. For a request with a non-empty command and a supplied initial
  input, the text the timer callback writes to the terminal of the new session is, when
  the input is not empty, the command, a space, the input in single quotes with every
  single quote of the input replaced by quote, backslash, quote, quote, and a carriage
  return; when the input is the empty string, it is the command and a carriage return
  only. It is the only call made on the new handle so far.
\<close>

theorem C4_injected_text:
  assumes "req_command request = Some cmd" "cmd \<noteq> []"
      and "req_initialInput request = Some input"
      and "canCreateSession (run newPtyManager es)"
  shows "commandInjection request =
           Some (if input = [] then cmd @ [CHR 0x0D]
                 else cmd @ [CHR 0x20, CHR 0x27]
                      @ concat (map (\<lambda>c. if c = CHR 0x27 then [CHR 0x27, CHR 0x5C, CHR 0x27, CHR 0x27]
                                           else [c]) input)
                      @ [CHR 0x27, CHR 0x0D])
       \<and> pty (heap (onTimeout (fst (createSession (run newPtyManager es) request u now True))
                      (length (heap (run newPtyManager es))))
                ! length (heap (run newPtyManager es))) =
           [PtyWrite (if input = [] then cmd @ [CHR 0x0D]
                 else cmd @ [CHR 0x20, CHR 0x27]
                      @ concat (map (\<lambda>c. if c = CHR 0x27 then [CHR 0x27, CHR 0x5C, CHR 0x27, CHR 0x27]
                                           else [c]) input)
                      @ [CHR 0x27, CHR 0x0D])]"
proof -
  let ?m = "run newPtyManager es"
  let ?m1 = "fst (createSession ?m request u now True)"
  let ?a = "length (heap ?m)"
  have ok: "registryOk ?m" by (rule registryOk_run) (rule registryOk_new)
  have t: "map_of (timers ?m1) ?a = Some request"
    using ok assms(4) by (rule timer_after_create)
  have i: "heap ?m1 ! ?a = \<lparr>pty = [], session = freshSession request u now, outputBuffer = []\<rparr>"
    using assms(4) by (rule created_instance)
  have l: "?a < length (heap ?m1)" using assms(4) by (simp add: created_length)
  note c = commandInjection_some [OF assms(1-3)]
  have "pty (heap (onTimeout ?m1 ?a) ! ?a) =
      [PtyWrite (if input = [] then cmd @ [CHR 0x0D]
                 else cmd @ [CHR 0x20, CHR 0x27]
                      @ concat (map (\<lambda>c. if c = CHR 0x27 then [CHR 0x27, CHR 0x5C, CHR 0x27, CHR 0x27]
                                           else [c]) input)
                      @ [CHR 0x27, CHR 0x0D])]"
    using t i l by (simp add: onTimeout_heap callPty_pty c)
  then show ?thesis using c by (rule conjI [rotated])
qed

theorem C4_injected_text_witness:
  "pty (heap (onTimeout (fst (createSession (run newPtyManager []) exampleRequest ''s1'' 1000 True))
                (length (heap (run newPtyManager []))))
          ! length (heap (run newPtyManager []))) =
     [PtyWrite (''claude '' @ [CHR 0x27] @ ''it'' @ [CHR 0x27, CHR 0x5C, CHR 0x27, CHR 0x27]
                @ ''s broken'' @ [CHR 0x27, CHR 0x0D])]
   \<and> pty (heap (onTimeout (fst (createSession (run newPtyManager []) emptyInputRequest ''s1'' 1000 True))
                (length (heap (run newPtyManager []))))
          ! length (heap (run newPtyManager []))) =
     [PtyWrite (''claude'' @ [CHR 0x0D])]"
proof -
  have 1: "req_command exampleRequest = Some ''claude''" "''claude'' \<noteq> []"
    "req_initialInput exampleRequest = Some ''it's broken''"
    by (simp_all add: exampleRequest_def)
  have 2: "req_command emptyInputRequest = Some ''claude''" "''claude'' \<noteq> []"
    "req_initialInput emptyInputRequest = Some []"
    by (simp_all add: emptyInputRequest_def exampleRequest_def)
  have 3: "canCreateSession (run newPtyManager [])" by code_simp
  show ?thesis
    using C4_injected_text [OF 1 3, of "''s1''" 1000, THEN conjunct2]
      C4_injected_text [OF 2 3, of "''s1''" 1000, THEN conjunct2]
    by simp
qed

text \<open>
  Claim C9. The timer callback writes nothing exactly when the command of the request is
  absent or empty; then, when the timer of an admitted creation fires, no instance
  changes (no call is made on any handle) and nothing is emitted.
\<close>

theorem C9_no_command_no_injection:
  "(commandInjection request = None) = (req_command request = None \<or> req_command request = Some [])
   \<and> ((req_command request = None \<or> req_command request = Some [])
        \<and> canCreateSession (run newPtyManager es) \<longrightarrow>
        heap (onTimeout (fst (createSession (run newPtyManager es) request u now True))
                (length (heap (run newPtyManager es))))
          = heap (fst (createSession (run newPtyManager es) request u now True))
        \<and> events (onTimeout (fst (createSession (run newPtyManager es) request u now True))
                (length (heap (run newPtyManager es))))
          = events (fst (createSession (run newPtyManager es) request u now True)))"
proof -
  let ?m = "run newPtyManager es"
  let ?m1 = "fst (createSession ?m request u now True)"
  have iff: "(commandInjection request = None) = (req_command request = None \<or> req_command request = Some [])"
    by (auto simp: commandInjection_def truthy_def Let_def split: option.splits)
  have ev: "events (onTimeout m a) = events m" for m a
    by (simp add: onTimeout_def Let_def split: option.splits)
  have "req_command request = None \<or> req_command request = Some [] \<Longrightarrow>
        canCreateSession ?m \<Longrightarrow> heap (onTimeout ?m1 (length (heap ?m))) = heap ?m1"
  proof -
    assume a: "req_command request = None \<or> req_command request = Some []" and c: "canCreateSession ?m"
    have "registryOk ?m" by (rule registryOk_run) (rule registryOk_new)
    then have "map_of (timers ?m1) (length (heap ?m)) = Some request"
      using c by (rule timer_after_create)
    moreover have "commandInjection request = None" using a iff by simp
    ultimately show ?thesis by (simp add: onTimeout_heap)
  qed
  then show ?thesis using iff ev by blast
qed

theorem C9_no_command_no_injection_witness:
  "commandInjection noCommandRequest = None
   \<and> heap (onTimeout (fst (createSession (run newPtyManager []) noCommandRequest ''s1'' 1000 True))
              (length (heap (run newPtyManager []))))
      = heap (fst (createSession (run newPtyManager []) noCommandRequest ''s1'' 1000 True))"
proof -
  have 1: "req_command noCommandRequest = None"
    by (simp add: noCommandRequest_def)
  have 2: "canCreateSession (run newPtyManager [])" by code_simp
  show ?thesis
    using C9_no_command_no_injection [of noCommandRequest "[]" "''s1''" 1000] 1 2 by simp
qed

subsection \<open>Input and resize\<close>

lemma getSession_None: "(getSession m k = None) = (map_of (instances m) k = None)"
  by (simp add: getSession_def split: option.splits)

lemma getSession_Some:
  "getSession m k = Some s \<Longrightarrow> \<exists>a. map_of (instances m) k = Some a \<and> s = session (heap m ! a)"
  by (auto simp: getSession_def split: option.splits)

lemma registry_addr:
  "registryOk m \<Longrightarrow> map_of (instances m) k = Some a \<Longrightarrow> a < length (heap m)"
  by (auto simp: registryOk_def dest: map_of_SomeD)

text \<open>
  A running, resident session whose handle throws on \<^verbatim>\<open>resize\<close>, here for a size
  that is not positive: the \<^verbatim>\<open>catch\<close> returns false.
\<close>

theorem C5_counterexample:
  "map_option status (getSession (run newPtyManager [CreateSession exampleRequest ''s1'' 1000 True]) ''s1'')
     = Some Running
   \<and> snd (resizeSession (run newPtyManager [CreateSession exampleRequest ''s1'' 1000 True])
            ''s1'' (- 1) 30 False) = False"
  by code_simp

text \<open>
  Claim C5, as amended. In every state a run reaches: for an id unknown to the registry,
  or a resident session whose status is not running, \<^verbatim>\<open>writeToSession\<close> and
  \<^verbatim>\<open>resizeSession\<close> return false and leave the manager as it was (no call on any
  handle); for a resident running session the call is made on its handle, and the result
  is true when the handle's call returns and false when it throws.
\<close>

theorem C5_write_resize_guard:
  assumes "m = run newPtyManager es"
  shows "(getSession m k = None \<longrightarrow>
            writeToSession m k d ok = (m, False) \<and> resizeSession m k cols rows ok = (m, False))
       \<and> (getSession m k = Some s \<and> status s \<noteq> Running \<longrightarrow>
            writeToSession m k d ok = (m, False) \<and> resizeSession m k cols rows ok = (m, False))
       \<and> (getSession m k = Some s \<and> status s = Running \<longrightarrow>
            (\<exists>a. map_of (instances m) k = Some a
               \<and> pty (heap (fst (writeToSession m k d ok)) ! a) = pty (heap m ! a) @ [PtyWrite d]
               \<and> pty (heap (fst (resizeSession m k cols rows ok)) ! a)
                   = pty (heap m ! a) @ [PtyResize cols rows])
            \<and> snd (writeToSession m k d ok) = ok
            \<and> snd (resizeSession m k cols rows ok) = ok)"
proof -
  have ok: "registryOk m" unfolding assms by (rule registryOk_run) (rule registryOk_new)
  have 1: "getSession m k = None \<Longrightarrow>
      writeToSession m k d ok = (m, False) \<and> resizeSession m k cols rows ok = (m, False)"
    by (simp add: getSession_None writeToSession_def resizeSession_def)
  have 2: "getSession m k = Some s \<Longrightarrow> status s \<noteq> Running \<Longrightarrow>
      writeToSession m k d ok = (m, False) \<and> resizeSession m k cols rows ok = (m, False)"
    by (auto dest!: getSession_Some simp: writeToSession_def resizeSession_def)
  have 3: "getSession m k = Some s \<Longrightarrow> status s = Running \<Longrightarrow>
      (\<exists>a. map_of (instances m) k = Some a
               \<and> pty (heap (fst (writeToSession m k d ok)) ! a) = pty (heap m ! a) @ [PtyWrite d]
               \<and> pty (heap (fst (resizeSession m k cols rows ok)) ! a)
                   = pty (heap m ! a) @ [PtyResize cols rows])
            \<and> snd (writeToSession m k d ok) = ok
            \<and> snd (resizeSession m k cols rows ok) = ok"
  proof -
    assume g: "getSession m k = Some s" and r: "status s = Running"
    from g obtain a where a: "map_of (instances m) k = Some a" "s = session (heap m ! a)"
      by (auto dest: getSession_Some)
    have "a < length (heap m)" using ok a(1) by (rule registry_addr)
    then show ?thesis
      using a r by (simp add: writeToSession_def resizeSession_def callPty_pty)
  qed
  show ?thesis using 1 2 3 by blast
qed

theorem C5_write_resize_guard_witness:
  "writeToSession (run newPtyManager killedOnce) ''s1'' ''ls'' True = (run newPtyManager killedOnce, False)
   \<and> writeToSession (run newPtyManager killedOnce) ''s2'' ''ls'' True = (run newPtyManager killedOnce, False)
   \<and> snd (writeToSession (run newPtyManager oneSession) ''s1'' ''ls'' True) = True"
proof -
  have 1: "getSession (run newPtyManager killedOnce) ''s2'' = None" by code_simp
  have 2: "getSession (run newPtyManager killedOnce) ''s1''
             = Some ((freshSession exampleRequest ''s1'' 1000)\<lparr>status := Failed, completedAt := Some 2000\<rparr>)"
    by code_simp
  have 3: "getSession (run newPtyManager oneSession) ''s1'' = Some (freshSession exampleRequest ''s1'' 1000)"
    by code_simp
  have 4: "status (freshSession exampleRequest ''s1'' 1000) = Running" by (simp add: freshSession_def)
  show ?thesis
    using C5_write_resize_guard [of "run newPtyManager killedOnce" killedOnce "''s2''" "''ls''" True 0 0]
      C5_write_resize_guard [of "run newPtyManager killedOnce" killedOnce "''s1''" "''ls''" True 0 0
        "(freshSession exampleRequest ''s1'' 1000)\<lparr>status := Failed, completedAt := Some 2000\<rparr>"]
      C5_write_resize_guard [of "run newPtyManager oneSession" oneSession "''s1''" "''ls''" True 0 0
        "freshSession exampleRequest ''s1'' 1000"]
      1 2 3 4
    by simp
qed

subsection \<open>The output buffer\<close>

lemma buf_list_update:
  "outputBuffer x = outputBuffer (H ! a) \<Longrightarrow> outputBuffer (H[a := x] ! b) = outputBuffer (H ! b)"
  by (cases "b = a"; cases "a < length H") (auto simp: list_update_beyond)

lemma callPty_buffer: "outputBuffer (heap (callPty m a c) ! b) = outputBuffer (heap m ! b)"
  by (simp add: callPty_def buf_list_update)

lemma onExit_buffer: "outputBuffer (heap (onExit m a code now) ! b) = outputBuffer (heap m ! b)"
  by (simp add: onExit_heap buf_list_update)

lemma onTimeout_buffer: "outputBuffer (heap (onTimeout m a) ! b) = outputBuffer (heap m ! b)"
  by (simp add: onTimeout_heap callPty_buffer split: option.splits)

lemma writeToSession_buffer:
  "outputBuffer (heap (fst (writeToSession m k d ok)) ! b) = outputBuffer (heap m ! b)"
  by (simp add: writeToSession_def callPty_buffer split: option.splits)

lemma resizeSession_buffer:
  "outputBuffer (heap (fst (resizeSession m k c r ok)) ! b) = outputBuffer (heap m ! b)"
  by (simp add: resizeSession_def callPty_buffer split: option.splits)

lemma killSession_buffer:
  "outputBuffer (heap (fst (killSession m k now ok)) ! b) = outputBuffer (heap m ! b)"
  by (simp add: killSession_def Let_def callPty_buffer buf_list_update split: option.splits)

lemma killAll_buffer:
  "outputBuffer (heap (foldl (\<lambda>m1 k. fst (killSession m1 k (now k) (ok k))) m ks) ! b)
     = outputBuffer (heap m ! b)"
  by (induction ks arbitrary: m) (simp_all add: killSession_buffer)

lemma removeSession_buffer:
  "outputBuffer (heap (fst (removeSession m k now ok)) ! b) = outputBuffer (heap m ! b)"
  by (simp add: removeSession_def Let_def killSession_buffer split: option.splits)

lemma createSession_buffer:
  "b < length (heap m) \<Longrightarrow>
   outputBuffer (heap (fst (createSession m request u now ok)) ! b) = outputBuffer (heap m ! b)"
  by (cases "canCreateSession m"; cases ok)
     (simp_all add: createSession_rejected createSession_spawn_fails createSession_spawned nth_append)

lemma onData_buffer:
  "b < length (heap m) \<Longrightarrow>
   outputBuffer (heap (onData m a d) ! b) =
     (if a = b then pushOutput (outputBuffer (heap m ! b)) d else outputBuffer (heap m ! b))"
  by (simp add: onData_def Let_def nth_list_update)

lemma step_buffer:
  "b < length (heap m) \<Longrightarrow>
   outputBuffer (heap (step m e) ! b) = foldl pushOutput (outputBuffer (heap m ! b)) (dataOf b e)"
  by (cases e)
     (simp_all add: createSession_buffer onData_buffer onExit_buffer onTimeout_buffer
        writeToSession_buffer resizeSession_buffer killSession_buffer removeSession_buffer
        killAll_buffer cleanupCompletedSessions_def shutdown_def)

lemma createSession_length:
  "length (heap m) \<le> length (heap (fst (createSession m request u now ok)))"
  by (cases "canCreateSession m"; cases ok)
     (simp_all add: createSession_rejected createSession_spawn_fails createSession_spawned)

lemma quiet_length: "quiet m m' \<Longrightarrow> length (heap m') = length (heap m)"
  by (simp add: quiet_def)

lemma step_length: "length (heap m) \<le> length (heap (step m e))"
  by (cases e)
     (simp_all add: createSession_length quiet_length [OF quiet_onData] quiet_length [OF quiet_onExit]
        quiet_length [OF quiet_onTimeout] quiet_length [OF quiet_writeToSession]
        quiet_length [OF quiet_resizeSession] quiet_length [OF quiet_killSession]
        quiet_length [OF quiet_removeSession] quiet_length [OF quiet_cleanupCompletedSessions]
        quiet_length [OF quiet_shutdown])

lemma run_buffer:
  "b < length (heap m) \<Longrightarrow>
   outputBuffer (heap (run m es) ! b) = foldl pushOutput (outputBuffer (heap m ! b)) (emittedChunks b es)"
proof (induction es arbitrary: m)
  case Nil
  then show ?case by (simp add: run_def emittedChunks_def)
next
  case (Cons e es)
  have "b < length (heap (step m e))"
    using Cons.prems step_length [of m e] by simp
  then have "outputBuffer (heap (run (step m e) es) ! b)
      = foldl pushOutput (outputBuffer (heap (step m e) ! b)) (emittedChunks b es)"
    by (rule Cons.IH)
  then show ?case
    using Cons.prems by (simp add: run_def emittedChunks_def step_buffer)
qed

lemma pushOutput_length: "length buf \<le> 10000 \<Longrightarrow> length (pushOutput buf d) \<le> 10000"
  by (simp add: pushOutput_def Let_def)

lemma foldl_pushOutput:
  "length buf \<le> 10000 \<Longrightarrow>
   foldl pushOutput buf ds = drop (length (buf @ ds) - 10000) (buf @ ds)"
proof (induction ds arbitrary: buf)
  case Nil
  then show ?case by simp
next
  case (Cons d ds)
  have IH: "foldl pushOutput (pushOutput buf d) ds
      = drop (length (pushOutput buf d @ ds) - 10000) (pushOutput buf d @ ds)"
    by (rule Cons.IH) (rule pushOutput_length [OF Cons.prems])
  show ?case
  proof (cases "length buf < 10000")
    case True
    then have "pushOutput buf d = buf @ [d]" by (simp add: pushOutput_def Let_def)
    then show ?thesis using IH by simp
  next
    case False
    then have len: "length buf = 10000" using Cons.prems by simp
    then obtain x xs where buf: "buf = x # xs" by (cases buf) auto
    have p: "pushOutput buf d = xs @ [d]" using len by (simp add: pushOutput_def Let_def buf)
    have lx: "length xs = 9999" using len buf by simp
    have "foldl pushOutput buf (d # ds) = foldl pushOutput (xs @ [d]) ds"
      by (simp add: p)
    also have "\<dots> = drop (length ((xs @ [d]) @ ds) - 10000) ((xs @ [d]) @ ds)"
      using IH by (simp only: p)
    also have "length ((xs @ [d]) @ ds) - 10000 = length ds"
      by (simp add: lx)
    also have "length (buf @ d # ds) - 10000 = Suc (length ds)"
      by (simp add: len)
    then have "drop (length ds) ((xs @ [d]) @ ds) = drop (length (buf @ d # ds) - 10000) (buf @ d # ds)"
      by (simp add: buf)
    finally show ?thesis .
  qed
qed

lemma bufferBound_closed: "instClosed (\<lambda>i. length (outputBuffer i) \<le> 10000)"
  by (simp add: instClosed_def pushOutput_length)

lemma bufferBound_fresh: "instFresh (\<lambda>i. length (outputBuffer i) \<le> 10000)"
  by (simp add: instFresh_def)

lemma getSessionOutput_resident:
  "map_of (instances m) k = Some a \<Longrightarrow> getSessionOutput m k = concat (outputBuffer (heap m ! a))"
  by (simp add: getSessionOutput_def Let_def)

lemma getSessionOutput_absent:
  "getSession m k = None \<Longrightarrow> getSessionOutput m k = []"
  by (simp add: getSession_None getSessionOutput_def)

text \<open>
  Claim C6. In every state a run reaches, the buffer of every instance holds at most
  10000 chunks. The buffer of a session, after any run that follows its creation, is the
  list of the chunks its handle emitted in that run, in order, without the oldest ones
  beyond the last 10000. \<^verbatim>\<open>getSessionOutput\<close> returns the concatenation of the buffer of
  a resident session, and the empty string for an id that is not resident.
\<close>

theorem C6_output_buffer:
  "(a < length (heap (run newPtyManager es)) \<longrightarrow>
      length (outputBuffer (heap (run newPtyManager es) ! a)) \<le> 10000)
   \<and> (canCreateSession (run newPtyManager es) \<longrightarrow>
        outputBuffer (heap (run (fst (createSession (run newPtyManager es) request u now True)) es')
                        ! length (heap (run newPtyManager es)))
          = drop (length (emittedChunks (length (heap (run newPtyManager es))) es') - 10000)
                 (emittedChunks (length (heap (run newPtyManager es))) es'))
   \<and> (map_of (instances m) k = Some b \<longrightarrow> getSessionOutput m k = concat (outputBuffer (heap m ! b)))
   \<and> (getSession m k = None \<longrightarrow> getSessionOutput m k = [])"
proof -
  let ?m = "run newPtyManager es"
  let ?m1 = "fst (createSession ?m request u now True)"
  have 1: "a < length (heap ?m) \<Longrightarrow> length (outputBuffer (heap ?m ! a)) \<le> 10000"
    using all_reachable [OF bufferBound_closed bufferBound_fresh, of es]
    by (simp add: list_all_length)
  have 2: "outputBuffer (heap (run ?m1 es') ! length (heap ?m))
          = drop (length (emittedChunks (length (heap ?m)) es') - 10000)
                 (emittedChunks (length (heap ?m)) es')"
    if c: "canCreateSession ?m"
  proof -
    have "length (heap ?m) < length (heap ?m1)" using c by (simp add: created_length)
    then have "outputBuffer (heap (run ?m1 es') ! length (heap ?m))
        = foldl pushOutput (outputBuffer (heap ?m1 ! length (heap ?m))) (emittedChunks (length (heap ?m)) es')"
      by (rule run_buffer)
    also have "outputBuffer (heap ?m1 ! length (heap ?m)) = []"
      using c by (simp add: created_instance)
    finally show ?thesis by (simp add: foldl_pushOutput)
  qed
  show ?thesis
    using 1 2 getSessionOutput_resident [of m k b] getSessionOutput_absent [of m k] by blast
qed

theorem C6_output_buffer_witness:
  "outputBuffer (heap (run (fst (createSession (run newPtyManager []) exampleRequest ''s1'' 1000 True))
                         twoChunks) ! 0) = [''ab'', ''cd'']
   \<and> getSessionOutput (run newPtyManager (oneSession @ twoChunks)) ''s1'' = ''abcd''
   \<and> getSessionOutput (run newPtyManager (oneSession @ twoChunks)) ''s2'' = []
   \<and> length (outputBuffer (heap (run newPtyManager (oneSession @ twoChunks)) ! 0)) \<le> 10000"
proof -
  have 1: "canCreateSession (run newPtyManager [])" by code_simp
  have 2: "length (heap (run newPtyManager [])) = 0" by code_simp
  have 3: "emittedChunks 0 twoChunks = [''ab'', ''cd'']" by code_simp
  have 4: "map_of (instances (run newPtyManager (oneSession @ twoChunks))) ''s1'' = Some 0" by code_simp
  have 5: "outputBuffer (heap (run newPtyManager (oneSession @ twoChunks)) ! 0) = [''ab'', ''cd'']"
    by code_simp
  have 6: "getSession (run newPtyManager (oneSession @ twoChunks)) ''s2'' = None" by code_simp
  have 7: "0 < length (heap (run newPtyManager (oneSession @ twoChunks)))" by code_simp
  show ?thesis
    using C6_output_buffer [of 0 "[]" exampleRequest "''s1''" 1000 twoChunks
        "run newPtyManager (oneSession @ twoChunks)" "''s1''" 0]
      C6_output_buffer [of 0 "oneSession @ twoChunks" exampleRequest "''s1''" 1000 twoChunks
        "run newPtyManager (oneSession @ twoChunks)" "''s2''" 0]
      1 2 3 4 5 6 7
    by simp
qed

subsection \<open>Notification of a completed task\<close>

lemma settle_not_rejected: "settle env evs \<noteq> Rejected"
  by (induction evs) (simp_all split: option.splits)

lemma sendWeChatMessage_disabled:
  "\<not> enabled config \<or> webhookUrl config = [] \<Longrightarrow>
   sendWeChatMessage config env message = ([], Resolved False)"
  by (auto simp: sendWeChatMessage_def)

lemma sendWeChatMessage_not_rejected: "snd (sendWeChatMessage config env message) \<noteq> Rejected"
  by (simp add: sendWeChatMessage_def settle_not_rejected)

lemma sendWeChatMessage_bad_url:
  "\<not> urlOk env \<Longrightarrow> sendWeChatMessage config env message = ([], Resolved False)"
  by (simp add: sendWeChatMessage_def)

lemma sendWeChatMessage_failure:
  assumes "httpEvents env = ev # evs"
      and "ev = RequestError \<or> ev = RequestTimeout \<or> (\<exists>code body. ev = ResponseEnd code body \<and> code \<noteq> 200)"
  shows "snd (sendWeChatMessage config env message) = Resolved False"
  using assms by (auto simp: sendWeChatMessage_def onHttpEvent_def)

text \<open>
  What holds of \<^verbatim>\<open>notifyTaskCompleted\<close>: it never rejects; when notifications are
  disabled or the webhook URL is empty, or the URL cannot be parsed, it resolves to false
  and issues no request; when the first event is an error or a timeout of the request, or
  the end of a response whose status code is not 200, it resolves to false.
\<close>

lemma notifyTaskCompleted_handled:
  "snd (notifyTaskCompleted config env s) \<noteq> Rejected
   \<and> (\<not> enabled config \<or> webhookUrl config = [] \<longrightarrow>
        notifyTaskCompleted config env s = ([], Resolved False))
   \<and> (\<not> urlOk env \<longrightarrow> notifyTaskCompleted config env s = ([], Resolved False))
   \<and> (httpEvents env = ev # evs
        \<and> (ev = RequestError \<or> ev = RequestTimeout
            \<or> (\<exists>code body. ev = ResponseEnd code body \<and> code \<noteq> 200)) \<longrightarrow>
        snd (notifyTaskCompleted config env s) = Resolved False)"
  unfolding notifyTaskCompleted_def
  using sendWeChatMessage_not_rejected [of config env "taskCompletedMessage s"]
    sendWeChatMessage_disabled [of config env "taskCompletedMessage s"]
    sendWeChatMessage_bad_url [of env config "taskCompletedMessage s"]
    sendWeChatMessage_failure [of env ev evs config "taskCompletedMessage s"]
  by blast

text \<open>
  Claim C10 at a delivery failure the code can meet: notifications are enabled, the
  request is sent, and the connection is cut off after the headers of the response. The
  response never emits \<^verbatim>\<open>end\<close> and the request emits neither \<^verbatim>\<open>error\<close> nor
  \<^verbatim>\<open>timeout\<close>; no listener calls \<^verbatim>\<open>resolve\<close>, and the promise of
  \<^verbatim>\<open>notifyTaskCompleted\<close> stays pending: it does not resolve to false.
\<close>

theorem C10_aborted_response_pending:
  "notifyTaskCompleted
     \<lparr>enabled = True, webhookUrl = ''https://qyapi.example/cgi-bin/webhook/send?key=k''\<rparr>
     \<lparr>urlOk = True, errcodeIsZero = (\<lambda>body. None), httpEvents = [ResponseAborted]\<rparr>
     oldSession
   = ([\<lparr>reqUrl = ''https://qyapi.example/cgi-bin/webhook/send?key=k'',
        reqBody = taskCompletedMessage oldSession\<rparr>],
      Pending)"
  by (simp add: notifyTaskCompleted_def sendWeChatMessage_def onHttpEvent_def)

subsection \<open>Retention cleanup\<close>


















subsection \<open>The list of sessions\<close>

















end
